theory Spec2Isabelle
  imports Complex_Main
begin

section \<open>Statevector simulation of the tutorial circuits\<close>

text \<open>
  The scripts under \<^verbatim>\<open>src/\<close> build circuits by calling gate methods on a
  circuit object (\<^verbatim>\<open>algo.h(0)\<close>, \<^verbatim>\<open>algo.cx(0,1)\<close>, ...) and read the
  statevector back with \<^verbatim>\<open>Statevector(algo)\<close>. The circuit object, the gates'
  action on amplitudes and the measurement probabilities belong to the simulator the
  scripts import; they are modelled here from sections 3 and 4 of the specification.
  The gate sequences themselves are translated from the scripts.

  The gates act on exact complex amplitudes: the rounding of the simulator is not
  modelled. The angles \<^verbatim>\<open>thirds.py\<close> computes are its float64 values.
\<close>

subsection \<open>Data model\<close>

type_synonym statevector = "complex list"

datatype error =
    InvalidDimension
  | QubitIndexOutOfRange
  | InvalidGateSpec
  | QubitCountMismatch
  | NormalizationViolation
  | InvalidShotCount

text \<open>
  Modelled from the spec: the gate value object (section 3). A gate has a kind, a target
  qubit and zero or more control qubits; the rotation carries its angle.
\<close>

datatype kind = Hadamard | PauliX | RotationY real | PhaseFlip

record gate =
  kind :: kind
  target :: nat
  controls :: "nat list"

text \<open>
  Modelled from the spec: the circuit program (section 3), an ordered sequence of gates
  with a declared qubit count.
\<close>

record program =
  qubits :: nat
  gates :: "gate list"

subsection \<open>StateVector\<close>

text \<open>
  Modelled from the spec: \<^verbatim>\<open>initialize(n)\<close> (section 4.1): amplitude 1 at index 0,
  all else 0; fails with \<open>InvalidDimension\<close> if \<open>n < 1\<close>.
\<close>

definition initialize :: "nat \<Rightarrow> error + statevector" where
  "initialize n = (if n < 1 then Inl InvalidDimension else Inr (1 # replicate (2 ^ n - 1) 0))"

text \<open>The basis state \<open>|k\<rangle>\<close> of an \<open>n\<close>-qubit register: amplitude 1 at index \<open>k\<close>.\<close>

definition basis :: "nat \<Rightarrow> nat \<Rightarrow> statevector" where
  "basis n k = map (\<lambda>i. if i = k then 1 else 0) [0..<2 ^ n]"

definition norm_sq :: "statevector \<Rightarrow> real" where
  "norm_sq sv = sum_list (map (\<lambda>a. (cmod a)\<^sup>2) sv)"

text \<open>
  Modelled from the spec: \<^verbatim>\<open>normalize_check(tolerance)\<close> (section 4.1): fails with
  \<open>NormalizationViolation\<close> if the sum of squared magnitudes deviates from 1 by more
  than the tolerance.
\<close>

definition normalize_check :: "real \<Rightarrow> statevector \<Rightarrow> error + unit" where
  "normalize_check tolerance sv =
     (if \<bar>norm_sq sv - 1\<bar> > tolerance then Inl NormalizationViolation else Inr ())"

subsection \<open>GateApplicator\<close>

text \<open>
  Modelled from the spec: the recognized 2x2 unitaries (section 4.2), as
  \<open>(m00, m01, m10, m11)\<close>: Hadamard \<open>1/\<surd>2 [[1,1],[1,-1]]\<close>, Pauli-X
  \<open>[[0,1],[1,0]]\<close>, Y-rotation \<open>[[cos(\<theta>/2), -sin(\<theta>/2)],[sin(\<theta>/2), cos(\<theta>/2)]]\<close>.
  The phase flip has no matrix of its own in the spec; it is handled by \<open>new_amplitude\<close>.
\<close>

fun matrix :: "kind \<Rightarrow> complex \<times> complex \<times> complex \<times> complex" where
  "matrix Hadamard =
     (complex_of_real (1 / sqrt 2), complex_of_real (1 / sqrt 2),
      complex_of_real (1 / sqrt 2), complex_of_real (- (1 / sqrt 2)))"
| "matrix PauliX = (0, 1, 1, 0)"
| "matrix (RotationY \<theta>) =
     (complex_of_real (cos (\<theta> / 2)), complex_of_real (- sin (\<theta> / 2)),
      complex_of_real (sin (\<theta> / 2)), complex_of_real (cos (\<theta> / 2)))"
| "matrix PhaseFlip = (1, 0, 0, 1)"

text \<open>Whether every listed qubit is 1 in basis index \<open>i\<close>.\<close>

definition all_set :: "nat list \<Rightarrow> nat \<Rightarrow> bool" where
  "all_set qs i = list_all (\<lambda>q. bit i q) qs"

text \<open>
  Modelled from the spec: the action of a gate on one amplitude (section 4.2).
  Phase flip: multiply by \<open>-1\<close> at every basis index where all listed qubits are 1.
  Otherwise: where every control bit is 1, pair index \<open>i\<close> with the index differing only
  in bit \<open>t\<close> and replace the pair by the 2x2 matrix times the pair; other indices are
  unchanged.
\<close>

definition new_amplitude :: "gate \<Rightarrow> statevector \<Rightarrow> nat \<Rightarrow> complex" where
  "new_amplitude g sv i =
     (case kind g of
        PhaseFlip \<Rightarrow> if all_set (controls g @ [target g]) i then - (sv ! i) else sv ! i
      | k \<Rightarrow>
          if all_set (controls g) i then
            (case matrix k of (m00, m01, m10, m11) \<Rightarrow>
               if bit i (target g)
               then m10 * sv ! (i - 2 ^ target g) + m11 * sv ! i
               else m00 * sv ! i + m01 * sv ! (i + 2 ^ target g))
          else sv ! i)"

text \<open>
  Modelled from the spec: the error conditions of gate application (section 4.2): a target
  or control index outside \<open>[0,n)\<close> fails with \<open>QubitIndexOutOfRange\<close>, a control equal
  to the target with \<open>InvalidGateSpec\<close>.
\<close>

definition validate :: "nat \<Rightarrow> gate \<Rightarrow> error option" where
  "validate n g =
     (if \<not> (target g < n \<and> list_all (\<lambda>c. c < n) (controls g)) then Some QubitIndexOutOfRange
      else if target g \<in> set (controls g) then Some InvalidGateSpec
      else None)"

definition apply_gate :: "nat \<Rightarrow> gate \<Rightarrow> statevector \<Rightarrow> error + statevector" where
  "apply_gate n g sv =
     (case validate n g of
        Some e \<Rightarrow> Inl e
      | None \<Rightarrow> Inr (map (new_amplitude g sv) [0..<length sv]))"

subsection \<open>CircuitProgram\<close>

text \<open>
  Modelled from the spec: \<^verbatim>\<open>replay(program, initial_state)\<close> (sections 4.3 and 9):
  the gates are applied in order, each to the statevector the previous one produced; the
  first error stops the replay.
\<close>

fun replay_gates :: "nat \<Rightarrow> gate list \<Rightarrow> statevector \<Rightarrow> error + statevector" where
  "replay_gates n [] sv = Inr sv"
| "replay_gates n (g # gs) sv =
     (case apply_gate n g sv of Inl e \<Rightarrow> Inl e | Inr sv' \<Rightarrow> replay_gates n gs sv')"

definition replay :: "program \<Rightarrow> statevector \<Rightarrow> error + statevector" where
  "replay p sv = replay_gates (qubits p) (gates p) sv"

text \<open>
  Modelled from the spec: composition (section 4.3): appending program \<open>B\<close> to program
  \<open>A\<close> concatenates the gate lists; fragments built for different register sizes fail
  with \<open>QubitCountMismatch\<close>.
\<close>

definition compose :: "program \<Rightarrow> program \<Rightarrow> error + program" where
  "compose A B =
     (if qubits A \<noteq> qubits B then Inl QubitCountMismatch
      else Inr (A\<lparr>gates := gates A @ gates B\<rparr>))"

subsection \<open>Sampler\<close>

text \<open>
  Modelled from the spec: outcome probabilities (section 4.4). \<open>measured\<close> lists the
  measured qubits in order; \<open>outcome\<close> gives one bit per measured qubit in the same
  order. The probability sums the squared magnitudes over all basis indices that carry
  the outcome on the measured positions; unmeasured qubits are summed over.
\<close>

definition probability :: "statevector \<Rightarrow> nat list \<Rightarrow> bool list \<Rightarrow> real" where
  "probability sv measured outcome =
     sum_list (map (\<lambda>i. if map (bit i) measured = outcome then (cmod (sv ! i))\<^sup>2 else 0)
                   [0..<length sv])"

subsection \<open>The circuit object of the scripts\<close>

text \<open>
  Modelled from the spec: the circuit object the scripts build
  (\<^verbatim>\<open>QuantumCircuit(QuantumRegister(n))\<close>) is an empty program on \<open>n\<close> qubits; each
  gate method appends one gate and returns the updated circuit; \<^verbatim>\<open>Statevector(algo)\<close>
  replays the circuit on the all-zero state.
\<close>

definition QuantumCircuit :: "nat \<Rightarrow> program" where
  "QuantumCircuit n = \<lparr>qubits = n, gates = []\<rparr>"

definition append_gate :: "gate \<Rightarrow> program \<Rightarrow> program" where
  "append_gate g algo = algo\<lparr>gates := gates algo @ [g]\<rparr>"

text \<open>
  Modelled from the spec: the gates the scripts' methods append (section 4.2):
  \<^verbatim>\<open>h\<close>, \<^verbatim>\<open>x\<close> and \<^verbatim>\<open>ry\<close> are single-qubit gates, \<^verbatim>\<open>cx\<close> is Pauli-X with one
  control, \<^verbatim>\<open>ccx\<close> Pauli-X with two controls, and \<^verbatim>\<open>ccz\<close> the phase flip on its three
  listed qubits.
\<close>

definition h_gate :: "nat \<Rightarrow> gate" where
  "h_gate t = \<lparr>kind = Hadamard, target = t, controls = []\<rparr>"

definition x_gate :: "nat \<Rightarrow> gate" where
  "x_gate t = \<lparr>kind = PauliX, target = t, controls = []\<rparr>"

definition ry_gate :: "real \<Rightarrow> nat \<Rightarrow> gate" where
  "ry_gate \<theta> t = \<lparr>kind = RotationY \<theta>, target = t, controls = []\<rparr>"

definition cx_gate :: "nat \<Rightarrow> nat \<Rightarrow> gate" where
  "cx_gate c t = \<lparr>kind = PauliX, target = t, controls = [c]\<rparr>"

definition ccx_gate :: "nat \<Rightarrow> nat \<Rightarrow> nat \<Rightarrow> gate" where
  "ccx_gate c1 c2 t = \<lparr>kind = PauliX, target = t, controls = [c1, c2]\<rparr>"

definition ccz_gate :: "nat \<Rightarrow> nat \<Rightarrow> nat \<Rightarrow> gate" where
  "ccz_gate c1 c2 t = \<lparr>kind = PhaseFlip, target = t, controls = [c1, c2]\<rparr>"

definition qc_h :: "nat \<Rightarrow> program \<Rightarrow> program" where
  "qc_h t = append_gate (h_gate t)"

definition qc_x :: "nat \<Rightarrow> program \<Rightarrow> program" where
  "qc_x t = append_gate (x_gate t)"

definition qc_ry :: "real \<Rightarrow> nat \<Rightarrow> program \<Rightarrow> program" where
  "qc_ry \<theta> t = append_gate (ry_gate \<theta> t)"

definition qc_cx :: "nat \<Rightarrow> nat \<Rightarrow> program \<Rightarrow> program" where
  "qc_cx c t = append_gate (cx_gate c t)"

definition qc_ccx :: "nat \<Rightarrow> nat \<Rightarrow> nat \<Rightarrow> program \<Rightarrow> program" where
  "qc_ccx c1 c2 t = append_gate (ccx_gate c1 c2 t)"

definition qc_ccz :: "nat \<Rightarrow> nat \<Rightarrow> nat \<Rightarrow> program \<Rightarrow> program" where
  "qc_ccz c1 c2 t = append_gate (ccz_gate c1 c2 t)"

definition Statevector :: "program \<Rightarrow> error + statevector" where
  "Statevector algo =
     (case initialize (qubits algo) of Inl e \<Rightarrow> Inl e | Inr sv \<Rightarrow> replay algo sv)"

text \<open>
  Modelled from the spec: the measurement path (sections 4.4 and 4.5): the probability of
  an outcome on the measured qubits of the circuit's final statevector.
  \<^verbatim>\<open>measure_all\<close> measures every qubit of the circuit, in index order.
\<close>

definition measure_all :: "program \<Rightarrow> nat list" where
  "measure_all algo = [0..<qubits algo]"

definition measure_probability :: "program \<Rightarrow> nat list \<Rightarrow> bool list \<Rightarrow> error + real" where
  "measure_probability algo measured outcome =
     (case Statevector algo of
        Inl e \<Rightarrow> Inl e
      | Inr sv \<Rightarrow> Inr (probability sv measured outcome))"

subsection \<open>bellstate.py\<close>

definition bellstate_algo :: program where
  "bellstate_algo =
     (let algo = QuantumCircuit 2;
          algo = qc_h 0 algo;
          algo = qc_cx 0 1 algo
      in algo)"

subsection \<open>simple.py\<close>

definition simple_algo :: program where
  "simple_algo =
     (let algo = QuantumCircuit 2;
          algo = qc_h 0 algo;
          algo = qc_h 1 algo
      in algo)"

subsection \<open>thirds.py\<close>

text \<open>
  The script computes its two angles in float64. \<^verbatim>\<open>np.pi\<close> is the double
  \<^verbatim>\<open>0x400921FB54442D18\<close>, which lies below \<open>\<pi>\<close>, and \<^verbatim>\<open>1.0/3.0\<close> rounds to the
  double \<^verbatim>\<open>0x3FD5555555555555\<close>, which lies below \<open>1/3\<close>; both are given here by
  their exact rational values. Multiplying by 2, dividing by 4 and negating are exact in
  binary floating point. \<^verbatim>\<open>np.arcsin\<close> and \<^verbatim>\<open>np.sqrt\<close> are functions of the numerical
  library the script imports; what they return on a double is not fixed by the script, so
  they are parameters of \<open>angle1\<close> and of the circuit.
\<close>

definition np_pi :: real where
  "np_pi = 884279719003555 / 281474976710656"

definition one_third_float :: real where
  "one_third_float = 6004799503160661 / 18014398509481984"

definition angle1 :: "(real \<Rightarrow> real) \<Rightarrow> (real \<Rightarrow> real) \<Rightarrow> real" where
  "angle1 np_arcsin np_sqrt = 2 * np_arcsin (np_sqrt one_third_float)"

definition angle2 :: real where
  "angle2 = np_pi / 4"

text \<open>The gate calls of the script, for given values of its two angles.\<close>

definition thirds_circuit :: "real \<Rightarrow> real \<Rightarrow> program" where
  "thirds_circuit a1 a2 =
     (let algo = QuantumCircuit 2;
          algo = qc_ry a1 1 algo;
          algo = qc_h 0 algo;
          algo = qc_ry a2 0 algo;
          algo = qc_cx 1 0 algo;
          algo = qc_ry (- a2) 0 algo
      in algo)"

definition thirds_algo :: "(real \<Rightarrow> real) \<Rightarrow> (real \<Rightarrow> real) \<Rightarrow> program" where
  "thirds_algo np_arcsin np_sqrt = thirds_circuit (angle1 np_arcsin np_sqrt) angle2"

subsection \<open>increment.py\<close>

definition add_increment :: "program \<Rightarrow> program" where
  "add_increment algo =
     (let algo = qc_ccx 0 1 2 algo;
          algo = qc_cx 0 1 algo;
          algo = qc_x 0 algo
      in algo)"

text \<open>\<^verbatim>\<open>algo1\<close> as it stands when \<^verbatim>\<open>v1\<close>, \<^verbatim>\<open>v2\<close> and \<^verbatim>\<open>v3\<close> are read.\<close>

definition increment_algo1_v1 :: program where
  "increment_algo1_v1 = qc_x 1 (QuantumCircuit 3)"

definition increment_algo1_v2 :: program where
  "increment_algo1_v2 = add_increment increment_algo1_v1"

definition increment_algo1_v3 :: program where
  "increment_algo1_v3 = add_increment increment_algo1_v2"

text \<open>\<^verbatim>\<open>algo2\<close> as it stands when \<^verbatim>\<open>v4\<close> and \<^verbatim>\<open>v5\<close> are read.\<close>

definition increment_algo2_v4 :: program where
  "increment_algo2_v4 = qc_h 2 (QuantumCircuit 3)"

definition increment_algo2_v5 :: program where
  "increment_algo2_v5 = add_increment increment_algo2_v4"

subsection \<open>grover.py and grover\_simple.py\<close>

text \<open>The five helper functions are the same in both scripts.\<close>

definition add_verify :: "program \<Rightarrow> program" where
  "add_verify algo =
     (let algo = qc_x 1 algo;
          algo = qc_ccx 0 1 2 algo;
          algo = qc_x 1 algo
      in algo)"

definition add_verify_with_h :: "program \<Rightarrow> program" where
  "add_verify_with_h algo =
     (let algo = qc_h 2 algo;
          algo = add_verify algo;
          algo = qc_h 2 algo
      in algo)"

definition add_prepare :: "program \<Rightarrow> program" where
  "add_prepare algo =
     (let algo = qc_h 0 algo;
          algo = qc_h 1 algo;
          algo = qc_h 2 algo
      in algo)"

definition add_reverse :: "program \<Rightarrow> program" where
  "add_reverse algo =
     (let algo = qc_x 0 algo;
          algo = qc_x 1 algo;
          algo = qc_x 2 algo
      in algo)"

definition add_amplify :: "program \<Rightarrow> program" where
  "add_amplify algo =
     (let algo = add_prepare algo;
          algo = add_reverse algo;
          algo = qc_ccz 0 1 2 algo;
          algo = add_reverse algo;
          algo = add_prepare algo
      in algo)"

text \<open>\<^verbatim>\<open>algo4\<close>: the three steps of the search, before measurement.\<close>

definition algo4 :: program where
  "algo4 =
     (let algo4 = QuantumCircuit 3;
          algo4 = add_prepare algo4;
          algo4 = add_verify_with_h algo4;
          algo4 = add_amplify algo4
      in algo4)"

text \<open>The other circuits of \<^verbatim>\<open>grover.py\<close>, each as it stands at its last snapshot.\<close>

definition grover_algo1 :: program where
  "grover_algo1 =
     (let algo1 = QuantumCircuit 3;
          algo1 = qc_x 0 algo1;
          algo1 = qc_x 1 algo1;
          algo1 = qc_ccx 0 1 2 algo1
      in algo1)"

definition grover_algo2 :: program where
  "grover_algo2 =
     (let algo2 = QuantumCircuit 3;
          algo2 = qc_x 0 algo2;
          algo2 = add_verify algo2
      in algo2)"

definition grover_algo3 :: program where
  "grover_algo3 =
     (let algo3 = QuantumCircuit 3;
          algo3 = add_prepare algo3;
          algo3 = add_verify_with_h algo3;
          algo3 = add_prepare algo3;
          algo3 = add_reverse algo3;
          algo3 = qc_ccz 0 1 2 algo3;
          algo3 = add_reverse algo3;
          algo3 = add_prepare algo3
      in algo3)"

text \<open>The qubits \<^verbatim>\<open>algo4.measure(q[0:2], c)\<close> measures.\<close>

definition algo4_measured :: "nat list" where
  "algo4_measured = [0, 1]"

text \<open>The entry \<open>1/\<surd>2\<close> of the Hadamard matrix, as a complex number.\<close>

definition r2 :: complex where
  "r2 = complex_of_real (1 / sqrt 2)"

text \<open>
  Every circuit of the scripts, each as it stands at its last snapshot; the two library
  functions of \<^verbatim>\<open>thirds.py\<close> are parameters.
\<close>

definition script_circuits :: "(real \<Rightarrow> real) \<Rightarrow> (real \<Rightarrow> real) \<Rightarrow> program list" where
  "script_circuits np_arcsin np_sqrt =
     [bellstate_algo, simple_algo, thirds_algo np_arcsin np_sqrt,
      increment_algo1_v3, increment_algo2_v5,
      grover_algo1, grover_algo2, grover_algo3, algo4]"

section \<open>Auxiliary facts\<close>

subsection \<open>The partner index of a basis index\<close>

lemma partner_up: "\<not> bit i t \<Longrightarrow> i + 2 ^ t = set_bit t (i::nat)"
  by (simp add: set_bit_eq)

lemma partner_down: 
  assumes "bit (i::nat) t" shows "i - 2 ^ t = unset_bit t i"
proof -
  have "\<not> bit (unset_bit t i) t" by (simp add: bit_unset_bit_iff)
  then have "unset_bit t i + 2 ^ t = set_bit t (unset_bit t i)" by (rule partner_up)
  also have "\<dots> = i" 
    by (rule bit_eqI) (use assms in \<open>auto simp add: bit_set_bit_iff bit_unset_bit_iff\<close>)
  finally show ?thesis by simp
qed

lemma partner_up_lt:
  assumes "i < 2 ^ n" "t < n" "\<not> bit (i::nat) t"
  shows "i + 2 ^ t < 2 ^ n"
proof -
  have "take_bit n (set_bit t i) = set_bit t i"
    using assms by (simp add: take_bit_set_bit_eq take_bit_nat_eq_self)
  then have "set_bit t i < 2 ^ n"
    by (simp only: take_bit_nat_eq_self_iff)
  then show ?thesis using assms by (simp add: partner_up)
qed

lemma bit_partner_up:
  "\<not> bit (i::nat) t \<Longrightarrow> bit (i + 2 ^ t) q \<longleftrightarrow> q = t \<or> bit i q"
  by (auto simp add: partner_up bit_set_bit_iff)

lemma bit_ge_pow: "bit (i::nat) t \<Longrightarrow> 2 ^ t \<le> i"
  by (metis bit_take_bit_iff less_irrefl not_le take_bit_nat_eq_self)

lemma bit_partner_down:
  "bit (i::nat) t \<Longrightarrow> bit (i - 2 ^ t) q \<longleftrightarrow> q \<noteq> t \<and> bit i q"
  by (auto simp add: partner_down bit_unset_bit_iff)

lemma partner_down_up: "bit (i::nat) t \<Longrightarrow> i - 2 ^ t + 2 ^ t = i"
  using bit_ge_pow by simp

lemma all_set_partner_up:
  "\<not> bit (i::nat) t \<Longrightarrow> t \<notin> set cs \<Longrightarrow> all_set cs (i + 2 ^ t) = all_set cs i"
  by (auto simp add: all_set_def list_all_iff bit_partner_up)

lemma all_set_partner_down:
  "bit (i::nat) t \<Longrightarrow> t \<notin> set cs \<Longrightarrow> all_set cs (i - 2 ^ t) = all_set cs i"
  by (auto simp add: all_set_def list_all_iff bit_partner_down)

subsection \<open>The 2x2 matrices preserve the norm of a pair\<close>

lemma rot_real:
  fixes c s x y :: real
  assumes "c\<^sup>2 + s\<^sup>2 = 1"
  shows "(c * x - s * y)\<^sup>2 + (s * x + c * y)\<^sup>2 = x\<^sup>2 + y\<^sup>2"
proof -
  have "(c * x - s * y)\<^sup>2 + (s * x + c * y)\<^sup>2 = (c\<^sup>2 + s\<^sup>2) * (x\<^sup>2 + y\<^sup>2)"
    by (simp add: power2_eq_square algebra_simps)
  with assms show ?thesis by simp
qed

lemma rot_pair:
  fixes c s :: real and a b :: complex
  assumes "c\<^sup>2 + s\<^sup>2 = 1"
  shows "(cmod (of_real c * a + of_real (- s) * b))\<^sup>2 + (cmod (of_real s * a + of_real c * b))\<^sup>2
         = (cmod a)\<^sup>2 + (cmod b)\<^sup>2"
proof -
  have "(cmod (of_real c * a + of_real (- s) * b))\<^sup>2 + (cmod (of_real s * a + of_real c * b))\<^sup>2
      = ((c * Re a - s * Re b)\<^sup>2 + (s * Re a + c * Re b)\<^sup>2)
      + ((c * Im a - s * Im b)\<^sup>2 + (s * Im a + c * Im b)\<^sup>2)"
    by (simp add: cmod_power2)
  also have "\<dots> = ((Re a)\<^sup>2 + (Re b)\<^sup>2) + ((Im a)\<^sup>2 + (Im b)\<^sup>2)"
    by (simp only: rot_real [OF assms])
  finally show ?thesis by (simp add: cmod_power2)
qed

lemma had_real:
  fixes r x y :: real
  assumes "2 * r\<^sup>2 = 1"
  shows "(r * x + r * y)\<^sup>2 + (r * x - r * y)\<^sup>2 = x\<^sup>2 + y\<^sup>2"
proof -
  have "(r * x + r * y)\<^sup>2 + (r * x - r * y)\<^sup>2 = (2 * r\<^sup>2) * (x\<^sup>2 + y\<^sup>2)"
    by (simp add: power2_eq_square algebra_simps)
  with assms show ?thesis by simp
qed

lemma hadamard_pair:
  fixes a b :: complex
  shows "(cmod (of_real (1 / sqrt 2) * a + of_real (1 / sqrt 2) * b))\<^sup>2
       + (cmod (of_real (1 / sqrt 2) * a + of_real (- (1 / sqrt 2)) * b))\<^sup>2
         = (cmod a)\<^sup>2 + (cmod b)\<^sup>2"
proof -
  have r: "2 * (1 / sqrt 2)\<^sup>2 = 1" by (simp add: power_divide)
  have "(cmod (of_real (1 / sqrt 2) * a + of_real (1 / sqrt 2) * b))\<^sup>2
       + (cmod (of_real (1 / sqrt 2) * a + of_real (- (1 / sqrt 2)) * b))\<^sup>2
     = (((1 / sqrt 2) * Re a + (1 / sqrt 2) * Re b)\<^sup>2 + ((1 / sqrt 2) * Re a - (1 / sqrt 2) * Re b)\<^sup>2)
     + (((1 / sqrt 2) * Im a + (1 / sqrt 2) * Im b)\<^sup>2 + ((1 / sqrt 2) * Im a - (1 / sqrt 2) * Im b)\<^sup>2)"
    by (simp add: cmod_power2)
  also have "\<dots> = ((Re a)\<^sup>2 + (Re b)\<^sup>2) + ((Im a)\<^sup>2 + (Im b)\<^sup>2)"
    by (simp only: had_real [OF r])
  finally show ?thesis by (simp add: cmod_power2)
qed

lemma unitary_pair:
  assumes "k \<noteq> PhaseFlip" "matrix k = (m00, m01, m10, m11)"
  shows "(cmod (m00 * a + m01 * b))\<^sup>2 + (cmod (m10 * a + m11 * b))\<^sup>2 = (cmod a)\<^sup>2 + (cmod b)\<^sup>2"
proof (cases k)
  case Hadamard
  with assms(2) show ?thesis using hadamard_pair [of a b] by auto
next
  case PauliX
  with assms show ?thesis by auto
next
  case (RotationY \<theta>)
  have "(cos (\<theta> / 2))\<^sup>2 + (sin (\<theta> / 2))\<^sup>2 = 1" by simp
  from rot_pair [OF this, of a b] RotationY assms(2) show ?thesis by auto
next
  case PhaseFlip
  with assms show ?thesis by simp
qed

subsection \<open>Gate application preserves the norm\<close>

lemma valid_iff:
  "validate n g = None \<longleftrightarrow> target g < n \<and> (\<forall>c\<in>set (controls g). c < n) \<and> target g \<notin> set (controls g)"
  by (auto simp add: validate_def list_all_iff)

lemma apply_gate_valid:
  "validate n g = None \<Longrightarrow> apply_gate n g sv = Inr (map (new_amplitude g sv) [0..<length sv])"
  by (simp add: apply_gate_def)

lemma norm_sq_map:
  "norm_sq (map f [0..<N]) = (\<Sum>i\<in>{0..<N}. (cmod (f i))\<^sup>2)"
  by (simp add: norm_sq_def comp_def interv_sum_list_conv_sum_set_nat)

lemma norm_sq_nth:
  "norm_sq sv = (\<Sum>i\<in>{0..<length sv}. (cmod (sv ! i))\<^sup>2)"
proof -
  have "sv = map (\<lambda>i. sv ! i) [0..<length sv]" by (simp add: map_nth)
  then have "norm_sq sv = norm_sq (map (\<lambda>i. sv ! i) [0..<length sv])" by simp
  then show ?thesis by (simp only: norm_sq_map)
qed

lemma sum_pairs:
  fixes F :: "nat \<Rightarrow> real"
  assumes "t < n"
  shows "(\<Sum>i\<in>{0..<2 ^ n}. F i) = (\<Sum>i\<in>{i\<in>{0..<2 ^ n}. \<not> bit i t}. F i + F (i + 2 ^ t))"
proof -
  let ?S = "{0..<(2::nat) ^ n}"
  let ?A = "{i\<in>?S. \<not> bit i t}"
  let ?B = "{i\<in>?S. bit i t}"
  have S: "?S = ?A \<union> ?B" by auto
  have inj: "inj_on (\<lambda>i. i + 2 ^ t) ?A" by (simp add: inj_on_def)
  have img: "?B = (\<lambda>i. i + 2 ^ t) ` ?A"
  proof (rule set_eqI, rule iffI)
    fix j assume j: "j \<in> ?B"
    then have "j - 2 ^ t \<in> ?A" by (auto simp add: bit_partner_down intro: less_imp_diff_less)
    moreover have "j = (j - 2 ^ t) + 2 ^ t" using j by (simp add: partner_down_up)
    ultimately show "j \<in> (\<lambda>i. i + 2 ^ t) ` ?A" by (rule rev_image_eqI)
  next
    fix j assume "j \<in> (\<lambda>i. i + 2 ^ t) ` ?A"
    then show "j \<in> ?B" using assms by (auto simp add: bit_partner_up partner_up_lt)
  qed
  have "sum F ?S = sum F ?A + sum F ?B"
    by (subst S, rule sum.union_disjoint) auto
  also have "sum F ?B = (\<Sum>i\<in>?A. F (i + 2 ^ t))"
    by (subst img) (simp only: sum.reindex [OF inj] comp_def)
  finally show ?thesis by (simp add: sum.distrib)
qed


lemma new_amplitude_unitary:
  assumes "kind g \<noteq> PhaseFlip" "matrix (kind g) = (m00, m01, m10, m11)"
  shows "new_amplitude g sv i =
     (if all_set (controls g) i then
        if bit i (target g)
        then m10 * sv ! (i - 2 ^ target g) + m11 * sv ! i
        else m00 * sv ! i + m01 * sv ! (i + 2 ^ target g)
      else sv ! i)"
  using assms by (cases "kind g") (auto simp add: new_amplitude_def)

lemma new_amplitude_pair:
  assumes "kind g \<noteq> PhaseFlip" "target g \<notin> set (controls g)" "\<not> bit i (target g)"
  shows "(cmod (new_amplitude g sv i))\<^sup>2 + (cmod (new_amplitude g sv (i + 2 ^ target g)))\<^sup>2
         = (cmod (sv ! i))\<^sup>2 + (cmod (sv ! (i + 2 ^ target g)))\<^sup>2"
proof -
  obtain m00 m01 m10 m11 where m: "matrix (kind g) = (m00, m01, m10, m11)"
    by (metis prod_cases4)
  have b: "bit (i + 2 ^ target g) (target g)"
    using assms(3) by (simp add: bit_partner_up)
  have c: "all_set (controls g) (i + 2 ^ target g) = all_set (controls g) i"
    using assms by (simp add: all_set_partner_up)
  show ?thesis
    using unitary_pair [OF assms(1) m, of "sv ! i" "sv ! (i + 2 ^ target g)"]
    by (simp add: new_amplitude_unitary [OF assms(1) m] b c assms(3))
qed

lemma norm_sq_apply_gate:
  assumes "length sv = 2 ^ n" "validate n g = None"
  shows "norm_sq (map (new_amplitude g sv) [0..<length sv]) = norm_sq sv"
proof (cases "kind g = PhaseFlip")
  case True
  then have "(cmod (new_amplitude g sv i))\<^sup>2 = (cmod (sv ! i))\<^sup>2" for i
    by (simp add: new_amplitude_def)
  then show ?thesis by (simp add: norm_sq_map norm_sq_nth [of sv])
next
  case False
  from assms(2) have t: "target g < n" and c: "target g \<notin> set (controls g)"
    by (simp_all add: valid_iff)
  have "norm_sq (map (new_amplitude g sv) [0..<length sv])
      = (\<Sum>i\<in>{0..<2 ^ n}. (cmod (new_amplitude g sv i))\<^sup>2)"
    by (simp add: norm_sq_map assms(1))
  also have "\<dots> = (\<Sum>i\<in>{i\<in>{0..<2 ^ n}. \<not> bit i (target g)}.
       (cmod (new_amplitude g sv i))\<^sup>2 + (cmod (new_amplitude g sv (i + 2 ^ target g)))\<^sup>2)"
    by (rule sum_pairs [OF t])
  also have "\<dots> = (\<Sum>i\<in>{i\<in>{0..<2 ^ n}. \<not> bit i (target g)}.
       (cmod (sv ! i))\<^sup>2 + (cmod (sv ! (i + 2 ^ target g)))\<^sup>2)"
    by (rule sum.cong) (simp_all add: new_amplitude_pair [OF False c])
  also have "\<dots> = (\<Sum>i\<in>{0..<2 ^ n}. (cmod (sv ! i))\<^sup>2)"
    by (rule sum_pairs [OF t, symmetric])
  also have "\<dots> = norm_sq sv"
    by (simp add: norm_sq_nth [of sv] assms(1))
  finally show ?thesis .
qed

subsection \<open>Applying Pauli-X or Hadamard twice\<close>

lemma half_sqrt: "complex_of_real (1 / sqrt 2) * complex_of_real (1 / sqrt 2) = 1 / 2"
proof -
  have "complex_of_real (1 / sqrt 2) * complex_of_real (1 / sqrt 2)
      = complex_of_real ((1 / sqrt 2) * (1 / sqrt 2))" by (simp only: of_real_mult)
  also have "(1 / sqrt 2) * (1 / sqrt 2) = (1 / 2 :: real)" by simp
  finally show ?thesis by simp
qed

lemma hadamard_twice_pair:
  fixes a b :: complex
  defines "r \<equiv> complex_of_real (1 / sqrt 2)"
  shows "r * (r * a + r * b) + r * (r * a + - r * b) = a"
    and "r * (r * a + r * b) + - r * (r * a + - r * b) = b"
proof -
  have rr: "r * r = 1 / 2" unfolding r_def by (rule half_sqrt)
  have "r * (r * a + r * b) + r * (r * a + - r * b) = (r * r) * (2 * a)"
    by (simp add: algebra_simps)
  then show "r * (r * a + r * b) + r * (r * a + - r * b) = a" by (simp add: rr)
  have "r * (r * a + r * b) + - r * (r * a + - r * b) = (r * r) * (2 * b)"
    by (simp add: algebra_simps)
  then show "r * (r * a + r * b) + - r * (r * a + - r * b) = b" by (simp add: rr)
qed


lemma nth_applied:
  "i < length sv \<Longrightarrow> map (new_amplitude g sv) [0..<length sv] ! i = new_amplitude g sv i"
  by simp

lemma x_twice_nth:
  assumes "length sv = 2 ^ n" "t < n" "i < 2 ^ n"
  shows "new_amplitude (x_gate t) (map (new_amplitude (x_gate t) sv) [0..<2 ^ n]) i = sv ! i"
proof (cases "bit i t")
  case True
  then have "i - 2 ^ t < 2 ^ n" "\<not> bit (i - 2 ^ t) t" "i - 2 ^ t + 2 ^ t = i"
    using assms(3) by (simp_all add: bit_partner_down partner_down_up less_imp_diff_less)
  with True assms show ?thesis
    by (simp add: new_amplitude_def x_gate_def all_set_def)
next
  case False
  then have "i + 2 ^ t < 2 ^ n" "bit (i + 2 ^ t) t"
    using assms by (simp_all add: bit_partner_up partner_up_lt)
  with False assms show ?thesis
    by (simp add: new_amplitude_def x_gate_def all_set_def)
qed

lemma h_twice_nth:
  assumes "length sv = 2 ^ n" "t < n" "i < 2 ^ n"
  shows "new_amplitude (h_gate t) (map (new_amplitude (h_gate t) sv) [0..<2 ^ n]) i = sv ! i"
proof (cases "bit i t")
  case True
  then have "i - 2 ^ t < 2 ^ n" "\<not> bit (i - 2 ^ t) t" "i - 2 ^ t + 2 ^ t = i"
    using assms(3) by (simp_all add: bit_partner_down partner_down_up less_imp_diff_less)
  with True assms show ?thesis
    using hadamard_twice_pair(2) [of "sv ! (i - 2 ^ t)" "sv ! i"]
    by (simp add: new_amplitude_def h_gate_def all_set_def)
next
  case False
  then have "i + 2 ^ t < 2 ^ n" "bit (i + 2 ^ t) t"
    using assms by (simp_all add: bit_partner_up partner_up_lt)
  with False assms show ?thesis
    using hadamard_twice_pair(1) [of "sv ! i" "sv ! (i + 2 ^ t)"]
    by (simp add: new_amplitude_def h_gate_def all_set_def)
qed

subsection \<open>Replaying a circuit built gate by gate\<close>

lemma replay_append_gate:
  "replay (append_gate g algo) sv =
     (case replay algo sv of Inl e \<Rightarrow> Inl e | Inr sv' \<Rightarrow> apply_gate (qubits algo) g sv')"
proof -
  have "replay_gates n (gs @ [g]) s =
     (case replay_gates n gs s of Inl e \<Rightarrow> Inl e | Inr sv' \<Rightarrow> apply_gate n g sv')" for n gs s
    by (induction gs arbitrary: s) (simp_all split: sum.splits)
  then show ?thesis by (simp add: replay_def append_gate_def)
qed

lemma replay_gates_append:
  "replay_gates n (gs @ hs) sv =
     (case replay_gates n gs sv of Inl e \<Rightarrow> Inl e | Inr sv' \<Rightarrow> replay_gates n hs sv')"
  by (induction gs arbitrary: sv) (simp_all split: sum.splits)

lemma replay_QuantumCircuit: "replay (QuantumCircuit n) sv = Inr sv"
  by (simp add: replay_def QuantumCircuit_def)

lemma qubits_append_gate: "qubits (append_gate g algo) = qubits algo"
  by (simp add: append_gate_def)

lemma qubits_QuantumCircuit: "qubits (QuantumCircuit n) = n"
  by (simp add: QuantumCircuit_def)

lemma upt2: "[0..<2] = [0, 1::nat]" by (simp add: upt_rec)
lemma upt4: "[0..<4] = [0, 1, 2, 3::nat]" by (simp add: upt_rec)
lemma upt8: "[0..<8] = [0, 1, 2, 3, 4, 5, 6, 7::nat]" by (simp add: upt_rec)

subsection \<open>Replay preserves the norm; the circuits of the scripts are valid\<close>

lemma apply_gate_norm:
  assumes "length sv = 2 ^ n" "norm_sq sv = 1" "validate n g = None"
  shows "\<exists>sv'. apply_gate n g sv = Inr sv' \<and> length sv' = 2 ^ n \<and> norm_sq sv' = 1"
  using norm_sq_apply_gate [OF assms(1,3)] assms
  by (simp add: apply_gate_valid)

lemma replay_gates_norm:
  assumes "length sv = 2 ^ n" "norm_sq sv = 1" "\<forall>g\<in>set gs. validate n g = None"
  shows "\<exists>sv'. replay_gates n gs sv = Inr sv' \<and> length sv' = 2 ^ n \<and> norm_sq sv' = 1"
  using assms
proof (induction gs arbitrary: sv)
  case Nil
  then show ?case by simp
next
  case (Cons g gs)
  from Cons.prems have "validate n g = None" by simp
  from apply_gate_norm [OF Cons.prems(1,2) this]
  obtain sv1 where 1: "apply_gate n g sv = Inr sv1" "length sv1 = 2 ^ n" "norm_sq sv1 = 1"
    by blast
  from Cons.prems have "\<forall>g\<in>set gs. validate n g = None" by simp
  from Cons.IH [OF 1(2,3) this] 1(1) show ?case by simp
qed

lemma initialize_norm:
  assumes "1 \<le> n"
  shows "\<exists>sv. initialize n = Inr sv \<and> length sv = 2 ^ n \<and> norm_sq sv = 1"
proof -
  have "Suc (2 ^ n - 1) = 2 ^ n" by simp
  with assms show ?thesis by (simp add: initialize_def norm_sq_def sum_list_replicate)
qed

lemma normalize_check_ok: "norm_sq sv = 1 \<Longrightarrow> 0 \<le> tol \<Longrightarrow> normalize_check tol sv = Inr ()"
  by (simp add: normalize_check_def)

lemmas gate_defs = h_gate_def x_gate_def ry_gate_def cx_gate_def ccx_gate_def ccz_gate_def
lemmas qc_defs = qc_h_def qc_x_def qc_ry_def qc_cx_def qc_ccx_def qc_ccz_def append_gate_def QuantumCircuit_def
lemmas script_defs = bellstate_algo_def simple_algo_def thirds_algo_def thirds_circuit_def
  increment_algo1_v1_def increment_algo1_v2_def increment_algo1_v3_def
  increment_algo2_v4_def increment_algo2_v5_def add_increment_def
  add_verify_def add_verify_with_h_def add_prepare_def add_reverse_def add_amplify_def
  algo4_def grover_algo1_def grover_algo2_def grover_algo3_def

lemma script_circuits_valid:
  assumes "algo \<in> set (script_circuits np_arcsin np_sqrt)"
  shows "1 \<le> qubits algo \<and> (\<forall>g\<in>set (gates algo). validate (qubits algo) g = None)"
  using assms
  by (auto simp add: script_circuits_def script_defs Let_def qc_defs gate_defs validate_def)

subsection \<open>The gates of the scripts on registers of two and three qubits\<close>

lemmas eval_defs = apply_gate_def validate_def new_amplitude_def all_set_def bit_iff_odd gate_defs

lemma x0_8: "apply_gate 3 (x_gate 0) [a0,a1,a2,a3,a4,a5,a6,a7] = Inr [a1,a0,a3,a2,a5,a4,a7,a6]"
  by (simp add: eval_defs upt8)
lemma x1_8: "apply_gate 3 (x_gate 1) [a0,a1,a2,a3,a4,a5,a6,a7] = Inr [a2,a3,a0,a1,a6,a7,a4,a5]"
  by (simp add: eval_defs upt8)
lemma x2_8: "apply_gate 3 (x_gate 2) [a0,a1,a2,a3,a4,a5,a6,a7] = Inr [a4,a5,a6,a7,a0,a1,a2,a3]"
  by (simp add: eval_defs upt8)
lemma cx01_8: "apply_gate 3 (cx_gate 0 1) [a0,a1,a2,a3,a4,a5,a6,a7] = Inr [a0,a3,a2,a1,a4,a7,a6,a5]"
  by (simp add: eval_defs upt8)
lemma ccx_8: "apply_gate 3 (ccx_gate 0 1 2) [a0,a1,a2,a3,a4,a5,a6,a7] = Inr [a0,a1,a2,a7,a4,a5,a6,a3]"
  by (simp add: eval_defs upt8)
lemma ccz_8: "apply_gate 3 (ccz_gate 0 1 2) [a0,a1,a2,a3,a4,a5,a6,a7] = Inr [a0,a1,a2,a3,a4,a5,a6,- a7]"
  by (simp add: eval_defs upt8)

lemma matrix_h: "matrix Hadamard = (r2, r2, r2, - r2)"
  by (simp add: r2_def)

lemmas eval_h = apply_gate_def validate_def new_amplitude_def all_set_def bit_iff_odd gate_defs matrix_h

lemma h0_8: "apply_gate 3 (h_gate 0) [a0,a1,a2,a3,a4,a5,a6,a7] =
   Inr [r2 * (a0 + a1), r2 * (a0 - a1), r2 * (a2 + a3), r2 * (a2 - a3),
        r2 * (a4 + a5), r2 * (a4 - a5), r2 * (a6 + a7), r2 * (a6 - a7)]"
  by (simp add: eval_h upt8 del: matrix.simps(1)) (simp add: algebra_simps)
lemma h1_8: "apply_gate 3 (h_gate 1) [a0,a1,a2,a3,a4,a5,a6,a7] =
   Inr [r2 * (a0 + a2), r2 * (a1 + a3), r2 * (a0 - a2), r2 * (a1 - a3),
        r2 * (a4 + a6), r2 * (a5 + a7), r2 * (a4 - a6), r2 * (a5 - a7)]"
  by (simp add: eval_h upt8 del: matrix.simps(1)) (simp add: algebra_simps)
lemma h2_8: "apply_gate 3 (h_gate 2) [a0,a1,a2,a3,a4,a5,a6,a7] =
   Inr [r2 * (a0 + a4), r2 * (a1 + a5), r2 * (a2 + a6), r2 * (a3 + a7),
        r2 * (a0 - a4), r2 * (a1 - a5), r2 * (a2 - a6), r2 * (a3 - a7)]"
  by (simp add: eval_h upt8 del: matrix.simps(1)) (simp add: algebra_simps)

lemma h0_4: "apply_gate 2 (h_gate 0) [a0,a1,a2,a3] =
   Inr [r2 * (a0 + a1), r2 * (a0 - a1), r2 * (a2 + a3), r2 * (a2 - a3)]"
  by (simp add: eval_h upt4 del: matrix.simps(1)) (simp add: algebra_simps)
lemma h1_4: "apply_gate 2 (h_gate 1) [a0,a1,a2,a3] =
   Inr [r2 * (a0 + a2), r2 * (a1 + a3), r2 * (a0 - a2), r2 * (a1 - a3)]"
  by (simp add: eval_h upt4 del: matrix.simps(1)) (simp add: algebra_simps)
lemma cx01_4: "apply_gate 2 (cx_gate 0 1) [a0,a1,a2,a3] = Inr [a0,a3,a2,a1]"
  by (simp add: eval_defs upt4)
lemma cx10_4: "apply_gate 2 (cx_gate 1 0) [a0,a1,a2,a3] = Inr [a0,a1,a3,a2]"
  by (simp add: eval_defs upt4)
lemma ry0_4: "apply_gate 2 (ry_gate \<theta> 0) [a0,a1,a2,a3] =
   Inr [complex_of_real (cos (\<theta> / 2)) * a0 - complex_of_real (sin (\<theta> / 2)) * a1,
        complex_of_real (sin (\<theta> / 2)) * a0 + complex_of_real (cos (\<theta> / 2)) * a1,
        complex_of_real (cos (\<theta> / 2)) * a2 - complex_of_real (sin (\<theta> / 2)) * a3,
        complex_of_real (sin (\<theta> / 2)) * a2 + complex_of_real (cos (\<theta> / 2)) * a3]"
  by (simp add: eval_defs upt4)
lemma ry1_4: "apply_gate 2 (ry_gate \<theta> 1) [a0,a1,a2,a3] =
   Inr [complex_of_real (cos (\<theta> / 2)) * a0 - complex_of_real (sin (\<theta> / 2)) * a2,
        complex_of_real (cos (\<theta> / 2)) * a1 - complex_of_real (sin (\<theta> / 2)) * a3,
        complex_of_real (sin (\<theta> / 2)) * a0 + complex_of_real (cos (\<theta> / 2)) * a2,
        complex_of_real (sin (\<theta> / 2)) * a1 + complex_of_real (cos (\<theta> / 2)) * a3]"
  by (simp add: eval_defs upt4)

lemma length8: "length (sv::'a list) = 8 \<Longrightarrow> \<exists>a0 a1 a2 a3 a4 a5 a6 a7. sv = [a0,a1,a2,a3,a4,a5,a6,a7]"
  by (auto simp add: eval_nat_numeral length_Suc_conv)

lemma init3: "initialize 3 = Inr [1,0,0,0,0,0,0,0]"
  by (simp add: initialize_def eval_nat_numeral)
lemma init2: "initialize 2 = Inr [1,0,0,0]"
  by (simp add: initialize_def eval_nat_numeral)


lemma r2_r2: "r2 * r2 = 1 / 2"
  unfolding r2_def by (rule half_sqrt)

lemma r2_r2_left: "r2 * (r2 * z) = z / 2"
proof -
  have "r2 * (r2 * z) = (r2 * r2) * z" by (simp only: mult.assoc)
  then show ?thesis by (simp add: r2_r2)
qed

lemmas qc_replay = qc_h_def qc_x_def qc_ry_def qc_cx_def qc_ccx_def qc_ccz_def
  replay_append_gate replay_QuantumCircuit qubits_append_gate qubits_QuantumCircuit Let_def

lemmas gates8 = x0_8 x1_8 x2_8 cx01_8 ccx_8 ccz_8 h0_8 h1_8 h2_8
lemmas gates4 = h0_4 h1_4 cx01_4 cx10_4 ry0_4 ry1_4

lemma increment_8:
  "replay (add_increment (QuantumCircuit 3)) [a0,a1,a2,a3,a4,a5,a6,a7] = Inr [a7,a0,a1,a2,a3,a4,a5,a6]"
  by (simp add: add_increment_def qc_replay gates8 del: One_nat_def)

lemma verify_8:
  "replay (add_verify (QuantumCircuit 3)) [a0,a1,a2,a3,a4,a5,a6,a7] = Inr [a0,a5,a2,a3,a4,a1,a6,a7]"
  by (simp add: add_verify_def qc_replay gates8 del: One_nat_def)

lemma bell_state: "Statevector bellstate_algo = Inr [r2, 0, 0, r2]"
  by (simp add: Statevector_def bellstate_algo_def qc_replay gates4 init2 del: One_nat_def)

lemma grover_state:
  "Statevector algo4 = Inr [- (r2 / 4), - (r2 / 4), - (r2 / 4), - (r2 / 4), - (r2 / 4), - (5 * r2 / 4), - (r2 / 4), - (r2 / 4)]"
  apply (simp add: Statevector_def algo4_def add_prepare_def add_verify_with_h_def add_verify_def
       add_amplify_def add_reverse_def qc_replay gates8 init3 r2_r2 r2_r2_left del: One_nat_def)
  apply (simp add: algebra_simps r2_r2 r2_r2_left)
  done





subsection \<open>Basis states and outcome probabilities on small registers\<close>

lemma basis3:
  "basis 3 0 = [1,0,0,0,0,0,0,0]" "basis 3 1 = [0,1,0,0,0,0,0,0]"
  "basis 3 2 = [0,0,1,0,0,0,0,0]" "basis 3 3 = [0,0,0,1,0,0,0,0]"
  "basis 3 4 = [0,0,0,0,1,0,0,0]" "basis 3 5 = [0,0,0,0,0,1,0,0]"
  "basis 3 6 = [0,0,0,0,0,0,1,0]" "basis 3 7 = [0,0,0,0,0,0,0,1]"
  "basis 3 (Suc 0) = [0,1,0,0,0,0,0,0]"
  by (simp_all add: basis_def upt8)

lemma less8: "k < 8 \<longleftrightarrow> k = 0 \<or> k = 1 \<or> k = 2 \<or> k = 3 \<or> k = 4 \<or> k = 5 \<or> k = 6 \<or> k = (7::nat)"
  by auto

lemma probability_4:
  "probability [a0,a1,a2,a3] measured outcome =
     sum_list (map (\<lambda>i. if map (bit i) measured = outcome then (cmod ([a0,a1,a2,a3] ! i))\<^sup>2 else 0)
                   [0, 1, 2, 3])"
proof -
  have "length [a0,a1,a2,a3] = 4" by simp
  then show ?thesis unfolding probability_def by (simp only: upt4)
qed

lemma probability_8:
  "probability [a0,a1,a2,a3,a4,a5,a6,a7] measured outcome =
     sum_list (map (\<lambda>i. if map (bit i) measured = outcome
                          then (cmod ([a0,a1,a2,a3,a4,a5,a6,a7] ! i))\<^sup>2 else 0)
                   [0, 1, 2, 3, 4, 5, 6, 7])"
proof -
  have "length [a0,a1,a2,a3,a4,a5,a6,a7] = 8" by simp
  then show ?thesis unfolding probability_def by (simp only: upt8)
qed

lemma cmod_r2: "(cmod r2)\<^sup>2 = 1 / 2"
  by (simp add: r2_def norm_divide power_divide)

lemma measure_all_2:
  "measure_all bellstate_algo = [0, 1]" "measure_all (thirds_circuit a1 a2) = [0, 1]"
  by (simp_all add: measure_all_def bellstate_algo_def thirds_circuit_def qc_replay upt2)

lemma cmod_r2_4: "(cmod r2 / 4)\<^sup>2 = 1 / 32" "(5 * cmod r2 / 4)\<^sup>2 = 25 / 32"
  using cmod_r2 by (simp_all add: power_divide power_mult_distrib)

lemma grover_marked:
  "measure_probability algo4 algo4_measured [True, False] = Inr (13 / 16)"
  by (simp add: measure_probability_def grover_state algo4_measured_def probability_8
      cmod_r2_4 norm_divide norm_mult bit_iff_odd)

lemma grover_eleven:
  "measure_probability algo4 algo4_measured [True, True] = Inr (1 / 16)"
  by (simp add: measure_probability_def grover_state algo4_measured_def probability_8
      cmod_r2_4 norm_divide norm_mult bit_iff_odd)

subsection \<open>The float64 angles of thirds.py\<close>











section \<open>The claims\<close>

subsection \<open>Self-inverse gates\<close>

text \<open>
  Claim C5. For every \<open>n\<close>-qubit statevector and every qubit \<open>t < n\<close>, applying Pauli-X to
  qubit \<open>t\<close> twice in succession returns the original statevector, and so does applying
  Hadamard to qubit \<open>t\<close> twice. Amplitudes are exact here, so the result is equal to the
  original, not only close to it.
\<close>

theorem pauli_x_hadamard_self_inverse:
  assumes "length sv = 2 ^ n" "t < n"
  shows "replay (qc_x t (qc_x t (QuantumCircuit n))) sv = Inr sv
       \<and> replay (qc_h t (qc_h t (QuantumCircuit n))) sv = Inr sv"
proof
  have vx: "validate n (x_gate t) = None" and vh: "validate n (h_gate t) = None"
    using assms(2) by (simp_all add: validate_def x_gate_def h_gate_def)
  have "map (new_amplitude (x_gate t) (map (new_amplitude (x_gate t) sv) [0..<2 ^ n]))
          [0..<2 ^ n] = sv"
    by (rule nth_equalityI) (simp_all add: x_twice_nth [OF assms(1,2)] assms(1))
  then show "replay (qc_x t (qc_x t (QuantumCircuit n))) sv = Inr sv"
    by (simp add: qc_x_def replay_append_gate replay_QuantumCircuit qubits_append_gate
        qubits_QuantumCircuit apply_gate_valid [OF vx] assms(1))
  have "map (new_amplitude (h_gate t) (map (new_amplitude (h_gate t) sv) [0..<2 ^ n]))
          [0..<2 ^ n] = sv"
    by (rule nth_equalityI) (simp_all add: h_twice_nth [OF assms(1,2)] assms(1))
  then show "replay (qc_h t (qc_h t (QuantumCircuit n))) sv = Inr sv"
    by (simp add: qc_h_def replay_append_gate replay_QuantumCircuit qubits_append_gate
        qubits_QuantumCircuit apply_gate_valid [OF vh] assms(1))
qed

theorem pauli_x_hadamard_self_inverse_witness:
  "length [1, 0::complex] = 2 ^ 1 \<and> (0::nat) < 1
   \<and> replay (qc_x 0 (qc_x 0 (QuantumCircuit 1))) [1, 0] = Inr [1, 0]
   \<and> replay (qc_h 0 (qc_h 0 (QuantumCircuit 1))) [1, 0] = Inr [1, 0]"
  using pauli_x_hadamard_self_inverse [of "[1, 0]" 1 0] by simp

subsection \<open>Composition\<close>

text \<open>
  Claim C6. For programs \<open>A\<close> and \<open>B\<close> over the same qubit count and every initial
  statevector, appending \<open>B\<close> to \<open>A\<close> succeeds, concatenates the gate lists, and the
  replay of the result equals replaying \<open>A\<close> and then replaying \<open>B\<close> against the
  statevector \<open>A\<close> produced (an error of \<open>A\<close> is the error of the whole).
\<close>

theorem composition_replay:
  assumes "qubits A = qubits B"
  shows "\<exists>AB. compose A B = Inr AB
           \<and> gates AB = gates A @ gates B
           \<and> replay AB sv = (case replay A sv of Inl e \<Rightarrow> Inl e | Inr sv' \<Rightarrow> replay B sv')"
  using assms by (simp add: compose_def replay_def replay_gates_append split: sum.splits)

theorem composition_replay_witness:
  "qubits (qc_h 0 (QuantumCircuit 1)) = qubits (qc_x 0 (QuantumCircuit 1))
   \<and> (\<exists>AB. compose (qc_h 0 (QuantumCircuit 1)) (qc_x 0 (QuantumCircuit 1)) = Inr AB
           \<and> gates AB = gates (qc_h 0 (QuantumCircuit 1)) @ gates (qc_x 0 (QuantumCircuit 1))
           \<and> replay AB [1, 0] =
               (case replay (qc_h 0 (QuantumCircuit 1)) [1, 0] of
                  Inl e \<Rightarrow> Inl e
                | Inr sv' \<Rightarrow> replay (qc_x 0 (QuantumCircuit 1)) sv'))"
  using composition_replay [of "qc_h 0 (QuantumCircuit 1)" "qc_x 0 (QuantumCircuit 1)" "[1, 0]"]
  by (simp add: qc_h_def qc_x_def qubits_append_gate qubits_QuantumCircuit)

subsection \<open>Controlled phase flip\<close>

text \<open>
  Claim C7. For every statevector, applying the controlled phase flip on its listed qubits
  (the controls and the target, all valid for the register) succeeds, keeps the length, and
  multiplies the amplitude by \<open>-1\<close> at exactly the basis indices where all listed qubits
  are 1; every other amplitude is unchanged, and every magnitude is unchanged. For the
  \<^verbatim>\<open>ccz(0, 1, 2)\<close> of the scripts on three qubits this negates the amplitude at index 7
  only.
\<close>

theorem phase_flip_semantics:
  assumes "kind g = PhaseFlip" "validate n g = None"
  shows "(\<exists>sv'. apply_gate n g sv = Inr sv' \<and> length sv' = length sv
          \<and> (\<forall>i<length sv.
                sv' ! i = (if \<forall>q\<in>set (controls g @ [target g]). bit i q then - (sv ! i) else sv ! i)
              \<and> cmod (sv' ! i) = cmod (sv ! i)))
       \<and> apply_gate 3 (ccz_gate 0 1 2) [a0, a1, a2, a3, a4, a5, a6, a7] =
           Inr [a0, a1, a2, a3, a4, a5, a6, - a7]"
  using assms
  by (simp add: apply_gate_valid new_amplitude_def all_set_def list_all_iff ccz_8 del: One_nat_def)

theorem phase_flip_semantics_witness:
  "kind (ccz_gate 0 1 2) = PhaseFlip \<and> validate 3 (ccz_gate 0 1 2) = None
   \<and> (\<exists>sv'. apply_gate 3 (ccz_gate 0 1 2) (basis 3 7) = Inr sv'
          \<and> length sv' = length (basis 3 7)
          \<and> (\<forall>i<length (basis 3 7).
                sv' ! i = (if \<forall>q\<in>set (controls (ccz_gate 0 1 2) @ [target (ccz_gate 0 1 2)]). bit i q
                           then - (basis 3 7 ! i) else basis 3 7 ! i)
              \<and> cmod (sv' ! i) = cmod (basis 3 7 ! i)))"
proof -
  have k: "kind (ccz_gate 0 1 2) = PhaseFlip" by (simp add: ccz_gate_def)
  have v: "validate 3 (ccz_gate 0 1 2) = None" by (simp add: ccz_gate_def validate_def)
  from k v phase_flip_semantics [OF k v, of "basis 3 7", THEN conjunct1] show ?thesis by blast
qed

subsection \<open>Normalization\<close>

text \<open>
  Claim C4. Every gate application preserves normalization: for a statevector of length
  \<open>2^n\<close> whose squared magnitudes sum to 1 and a recognized gate (Hadamard, Pauli-X,
  Y-rotation by any angle, with any controls, or the phase flip) on valid qubit indices,
  the gate applies without error and the result's squared magnitudes sum to 1, so that
  the normalization check with tolerance \<open>1e-6\<close> passes. Hence the same holds for the
  statevector of every prefix of every circuit of the scripts, whatever the library
  functions of \<^verbatim>\<open>thirds.py\<close> return for its first angle.
\<close>

theorem normalization_invariant:
  "(length sv = 2 ^ n \<and> norm_sq sv = 1 \<and> validate n g = None \<longrightarrow>
      (\<exists>sv'. apply_gate n g sv = Inr sv' \<and> norm_sq sv' = 1
             \<and> normalize_check (1 / 10 ^ 6) sv' = Inr ()))
   \<and> (\<forall>algo\<in>set (script_circuits np_arcsin np_sqrt). \<forall>k.
        \<exists>sv'. Statevector (algo\<lparr>gates := take k (gates algo)\<rparr>) = Inr sv' \<and> norm_sq sv' = 1
             \<and> normalize_check (1 / 10 ^ 6) sv' = Inr ())"
proof (intro conjI impI ballI allI)
  assume "length sv = 2 ^ n \<and> norm_sq sv = 1 \<and> validate n g = None"
  then obtain sv' where "apply_gate n g sv = Inr sv'" "norm_sq sv' = 1"
    using apply_gate_norm [of sv n g] by blast
  then show "\<exists>sv'. apply_gate n g sv = Inr sv' \<and> norm_sq sv' = 1
             \<and> normalize_check (1 / 10 ^ 6) sv' = Inr ()"
    by (simp add: normalize_check_ok)
next
  fix algo k
  assume "algo \<in> set (script_circuits np_arcsin np_sqrt)"
  from script_circuits_valid [OF this]
  have q: "1 \<le> qubits algo" and v: "\<forall>g\<in>set (gates algo). validate (qubits algo) g = None"
    by simp_all
  from initialize_norm [OF q] obtain sv0
    where 0: "initialize (qubits algo) = Inr sv0" "length sv0 = 2 ^ qubits algo" "norm_sq sv0 = 1"
    by blast
  from v have "\<forall>g\<in>set (take k (gates algo)). validate (qubits algo) g = None"
    by (meson in_set_takeD)
  from replay_gates_norm [OF 0(2,3) this] obtain sv'
    where "replay_gates (qubits algo) (take k (gates algo)) sv0 = Inr sv'" "norm_sq sv' = 1"
    by blast
  with 0(1) show "\<exists>sv'. Statevector (algo\<lparr>gates := take k (gates algo)\<rparr>) = Inr sv' \<and> norm_sq sv' = 1
             \<and> normalize_check (1 / 10 ^ 6) sv' = Inr ()"
    by (simp add: Statevector_def replay_def normalize_check_ok)
qed

theorem normalization_invariant_witness:
  "length [1, 0::complex] = 2 ^ 1 \<and> norm_sq [1, 0] = 1 \<and> validate 1 (h_gate 0) = None
   \<and> (\<exists>sv'. apply_gate 1 (h_gate 0) [1, 0] = Inr sv' \<and> norm_sq sv' = 1
             \<and> normalize_check (1 / 10 ^ 6) sv' = Inr ())
   \<and> bellstate_algo \<in> set (script_circuits arcsin sqrt)
   \<and> (\<exists>sv'. Statevector (bellstate_algo\<lparr>gates := take 1 (gates bellstate_algo)\<rparr>) = Inr sv'
             \<and> norm_sq sv' = 1 \<and> normalize_check (1 / 10 ^ 6) sv' = Inr ())"
proof -
  have h: "length [1, 0::complex] = 2 ^ 1 \<and> norm_sq [1, 0] = 1 \<and> validate 1 (h_gate 0) = None"
    by (simp add: norm_sq_def validate_def h_gate_def)
  have b: "bellstate_algo \<in> set (script_circuits arcsin sqrt)"
    by (simp add: script_circuits_def)
  from normalization_invariant [of "[1, 0]" 1 "h_gate 0" arcsin sqrt] h b show ?thesis by blast
qed

subsection \<open>The increment circuit\<close>

text \<open>
  Claim C2, as stated, fails in its second half: the increment sequence
  doubly-controlled-X(0,1\<rightarrow>2), controlled-X(0\<rightarrow>1), X(0) applied to the basis state
  \<open>|3\<rangle>\<close> does not yield basis index 0.
\<close>

theorem increment_from_three_counterexample:
  "replay (add_increment (QuantumCircuit 3)) [0,0,0,1,0,0,0,0] \<noteq> Inr [1,0,0,0,0,0,0,0]"
  by (simp add: increment_8)

text \<open>
  Claim C2, amended. The increment sequence applied to the basis state \<open>|2\<rangle>\<close> yields
  exactly \<open>|3\<rangle>\<close> (amplitude 1 at index 3, 0 elsewhere); applied again, starting from
  \<open>|3\<rangle>\<close>, it yields \<open>|4\<rangle>\<close>. These are the statevectors \<^verbatim>\<open>v1\<close>, \<^verbatim>\<open>v2\<close> and
  \<^verbatim>\<open>v3\<close> that \<^verbatim>\<open>increment.py\<close> reads from \<^verbatim>\<open>algo1\<close>.
\<close>

theorem increment_from_two:
  "replay (add_increment (QuantumCircuit 3)) [0,0,1,0,0,0,0,0] = Inr [0,0,0,1,0,0,0,0]
   \<and> replay (add_increment (QuantumCircuit 3)) [0,0,0,1,0,0,0,0] = Inr [0,0,0,0,1,0,0,0]
   \<and> Statevector increment_algo1_v1 = Inr [0,0,1,0,0,0,0,0]
   \<and> Statevector increment_algo1_v2 = Inr [0,0,0,1,0,0,0,0]
   \<and> Statevector increment_algo1_v3 = Inr [0,0,0,0,1,0,0,0]"
  by (simp add: increment_8 Statevector_def increment_algo1_v1_def increment_algo1_v2_def
      increment_algo1_v3_def add_increment_def qc_replay gates8 init3 del: One_nat_def)

text \<open>
  Claim C8. The increment circuit is the successor permutation modulo 8: it maps every
  basis state \<open>|k\<rangle>\<close>, \<open>k < 8\<close>, to \<open>|(k+1) mod 8\<rangle>\<close>, and on any statevector of
  three qubits it moves the amplitude at index \<open>k\<close> to index \<open>(k+1) mod 8\<close>.
\<close>

theorem increment_successor:
  "(\<forall>k<8. replay (add_increment (QuantumCircuit 3)) (basis 3 k) = Inr (basis 3 ((k + 1) mod 8)))
   \<and> (length sv = 8 \<longrightarrow>
        (\<exists>sv'. replay (add_increment (QuantumCircuit 3)) sv = Inr sv' \<and> length sv' = 8
              \<and> (\<forall>k<8. sv' ! ((k + 1) mod 8) = sv ! k)))"
proof (intro conjI impI)
  have "replay (add_increment (QuantumCircuit 3)) (basis 3 k) = Inr (basis 3 ((k + 1) mod 8))"
    if "k < 8" for k
  proof -
    from that consider "k = 0" | "k = 1" | "k = 2" | "k = 3" | "k = 4" | "k = 5" | "k = 6" | "k = 7"
      by linarith
    then show ?thesis
      by cases (simp_all add: basis3 increment_8 del: One_nat_def)
  qed
  then show "\<forall>k<8. replay (add_increment (QuantumCircuit 3)) (basis 3 k) = Inr (basis 3 ((k + 1) mod 8))"
    by blast
next
  assume "length sv = 8"
  then obtain a0 a1 a2 a3 a4 a5 a6 a7 where sv: "sv = [a0,a1,a2,a3,a4,a5,a6,a7]"
    using length8 by blast
  show "\<exists>sv'. replay (add_increment (QuantumCircuit 3)) sv = Inr sv' \<and> length sv' = 8
              \<and> (\<forall>k<8. sv' ! ((k + 1) mod 8) = sv ! k)"
    unfolding sv by (auto simp add: less8 increment_8)
qed

theorem increment_successor_witness:
  "(7::nat) < 8 \<and> replay (add_increment (QuantumCircuit 3)) (basis 3 7) = Inr (basis 3 ((7 + 1) mod 8))
   \<and> length (basis 3 5) = 8
   \<and> (\<exists>sv'. replay (add_increment (QuantumCircuit 3)) (basis 3 5) = Inr sv' \<and> length sv' = 8
              \<and> (\<forall>k<8. sv' ! ((k + 1) mod 8) = basis 3 5 ! k))"
proof -
  have l: "length (basis 3 5) = 8" by (simp add: basis3)
  have 7: "(7::nat) < 8" by simp
  note t = increment_successor [of "basis 3 5"]
  from t [THEN conjunct1, rule_format, OF 7] t [THEN conjunct2, rule_format, OF l] l 7
  show ?thesis by blast
qed

subsection \<open>The verify oracle\<close>

text \<open>
  Claim C9. The verify oracle of the Grover scripts (X on qubit 1, doubly-controlled-X
  (0,1\<rightarrow>2), X on qubit 1) maps every basis state \<open>|b\<rangle>\<close> of three qubits to the basis
  state whose index is \<open>b\<close> with bit 2 XOR-ed with (bit 0 of \<open>b\<close> and not bit 1 of \<open>b\<close>):
  bits 0 and 1 are unchanged, and the ancilla qubit 2 is flipped exactly on the candidates
  with qubit 0 set and qubit 1 clear.
\<close>

theorem verify_oracle:
  "\<forall>b<8. replay (add_verify (QuantumCircuit 3)) (basis 3 b) =
           Inr (basis 3 (xor b (push_bit 2 (of_bool (bit b 0 \<and> \<not> bit b 1)))))"
proof -
  have "replay (add_verify (QuantumCircuit 3)) (basis 3 b) =
           Inr (basis 3 (xor b (push_bit 2 (of_bool (bit b 0 \<and> \<not> bit b 1)))))"
    if "b < 8" for b
  proof -
    from that consider "b = 0" | "b = 1" | "b = 2" | "b = 3" | "b = 4" | "b = 5" | "b = 6" | "b = 7"
      by linarith
    then show ?thesis
      by cases (simp_all add: basis3 verify_8 bit_iff_odd del: One_nat_def)
  qed
  then show ?thesis by blast
qed

theorem verify_oracle_witness:
  "(5::nat) < 8 \<and> replay (add_verify (QuantumCircuit 3)) (basis 3 5) =
           Inr (basis 3 (xor 5 (push_bit 2 (of_bool (bit (5::nat) 0 \<and> \<not> bit (5::nat) 1)))))"
proof -
  have 5: "(5::nat) < 8" by simp
  from verify_oracle [rule_format, OF 5] 5 show ?thesis by blast
qed

subsection \<open>The Bell state\<close>

text \<open>
  Claim C3. On two qubits in the all-zero state, Hadamard on qubit 0 followed by
  controlled-X with control 0 and target 1 yields the amplitudes
  \<open>[1/\<surd>2, 0, 0, 1/\<surd>2]\<close>; measuring both qubits gives 00 or 11, each with
  probability 1/2, and the outcomes 01 and 10 have probability 0.
\<close>

theorem bell_state_amplitudes:
  "Statevector bellstate_algo = Inr [complex_of_real (1 / sqrt 2), 0, 0, complex_of_real (1 / sqrt 2)]
   \<and> measure_probability bellstate_algo (measure_all bellstate_algo) [False, False] = Inr (1 / 2)
   \<and> measure_probability bellstate_algo (measure_all bellstate_algo) [True, True] = Inr (1 / 2)
   \<and> measure_probability bellstate_algo (measure_all bellstate_algo) [True, False] = Inr 0
   \<and> measure_probability bellstate_algo (measure_all bellstate_algo) [False, True] = Inr 0"
proof -
  have "Statevector bellstate_algo = Inr [complex_of_real (1 / sqrt 2), 0, 0, complex_of_real (1 / sqrt 2)]"
    by (simp only: bell_state r2_def)
  moreover have "measure_probability bellstate_algo (measure_all bellstate_algo) [False, False] = Inr (1 / 2)"
    by (simp add: measure_probability_def bell_state measure_all_2 probability_4 cmod_r2 bit_iff_odd)
  moreover have "measure_probability bellstate_algo (measure_all bellstate_algo) [True, True] = Inr (1 / 2)"
    by (simp add: measure_probability_def bell_state measure_all_2 probability_4 cmod_r2 bit_iff_odd)
  moreover have "measure_probability bellstate_algo (measure_all bellstate_algo) [True, False] = Inr 0"
    by (simp add: measure_probability_def bell_state measure_all_2 probability_4 cmod_r2 bit_iff_odd)
  moreover have "measure_probability bellstate_algo (measure_all bellstate_algo) [False, True] = Inr 0"
    by (simp add: measure_probability_def bell_state measure_all_2 probability_4 cmod_r2 bit_iff_odd)
  ultimately show ?thesis by blast
qed

subsection \<open>Three outcomes with a third each\<close>




subsection \<open>Grover search on three qubits\<close>

text \<open>
  Claim C1, as stated, fails: after prepare, the phase-kickback oracle and one amplify
  round, the probability of measuring 1 on both qubits 0 and 1 is 1/16, which does not
  exceed 0.9.
\<close>

theorem grover_eleven_counterexample:
  "measure_probability algo4 algo4_measured [True, True] = Inr (1 / 16) \<and> \<not> ((1::real) / 16 > 9 / 10)"
  using grover_eleven by simp

text \<open>
  Claim C1, amended. The oracle of the scripts marks the candidates with qubit 0 set and
  qubit 1 clear. After prepare on all three qubits, the phase-kickback oracle and one
  amplify round, the probability of measuring qubit 0 as 1 and qubit 1 as 0 is 13/16, and
  the probability of measuring 1 on both is 1/16. An outcome lists the bit of qubit 0
  first.
\<close>

theorem grover_probabilities:
  "measure_probability algo4 algo4_measured [True, False] = Inr (13 / 16)
   \<and> measure_probability algo4 algo4_measured [True, True] = Inr (1 / 16)"
  using grover_marked grover_eleven by (rule conjI)

end
